theory Spec2Isabelle
  imports Complex_Main "HOL-Library.Char_ord" "HOL-Library.List_Lexorder" "HOL-Library.Multiset"
begin

section \<open>Data model\<close>

text \<open>
  The three SQLAlchemy tables of \<^verbatim>\<open>index.py\<close>. A row is a record with the
  columns of its class; a table is the list of its rows in insertion order. The
  \<^verbatim>\<open>Float\<close> columns are modelled by real numbers (finite values, exact
  arithmetic); the nutrition columns of a food item can hold SQL \<^verbatim>\<open>NULL\<close>
  (\<open>None\<close>), because the handler stores whatever the decoded reply holds, and a JSON
  \<^verbatim>\<open>null\<close> is stored as \<^verbatim>\<open>NULL\<close>.
\<close>

datatype date = Date (year: nat) (month: nat) (day: nat)

record user =
  uid :: int
  username :: string
  password :: string

record food_item =
  item_id :: int
  item_name :: string
  calories :: "real option"
  protein :: "real option"
  carbs :: "real option"
  fat :: "real option"
  fiber :: "real option"
  serving_size_unit :: string
  item_user_id :: int

record food_log =
  log_id :: int
  log_date :: date
  meal_type :: string
  quantity :: real
  log_user_id :: int
  food_item_id :: int

text \<open>
  The database session. Primary keys are assigned by the backend from one sequence per
  table (\<open>user_seq\<close>, \<open>item_seq\<close>, \<open>log_seq\<close> hold the next value). The handlers never
  check a foreign key themselves, and the store does not either: a log row can name a
  food item identifier that no row of \<open>food_items\<close> has.
\<close>

record db =
  users :: "user list"
  food_items :: "food_item list"
  food_logs :: "food_log list"
  user_seq :: int
  item_seq :: int
  log_seq :: int

definition empty_db :: db where
  "empty_db = \<lparr>users = [], food_items = [], food_logs = [],
     user_seq = 1, item_seq = 1, log_seq = 1\<rparr>"

text \<open>
  \<^verbatim>\<open>HTTPException(status_code, detail)\<close>. For the three 500 responses whose detail
  is an f-string ending in the caught exception's text, \<open>detail\<close> is the fixed prefix.
  \<open>Unhandled\<close> is an exception that no handler catches (the framework answers 500).
\<close>

datatype error = HTTPException nat string | Unhandled

fun status_code :: "error \<Rightarrow> nat" where
  "status_code (HTTPException c d) = c"
| "status_code Unhandled = 500"

text \<open>\<^verbatim>\<open>db.query(User).filter(User.username == username).first()\<close>\<close>

definition find_user :: "string \<Rightarrow> db \<Rightarrow> user option" where
  "find_user name d = find (\<lambda>u. username u = name) (users d)"

section \<open>Strings\<close>

text \<open>
  \<^verbatim>\<open>str.lower()\<close> on the ASCII letters; every other character is kept (strings are
  byte strings here, so a letter outside ASCII is not folded).
\<close>

definition lower_char :: "char \<Rightarrow> char" where
  "lower_char c =
     (case map_of (zip ''ABCDEFGHIJKLMNOPQRSTUVWXYZ'' ''abcdefghijklmnopqrstuvwxyz'') c of
        None \<Rightarrow> c
      | Some l \<Rightarrow> l)"

definition lower :: "string \<Rightarrow> string" where
  "lower s = map lower_char s"

text \<open>
  \<^verbatim>\<open>s.replace(old, new)\<close>: every non-overlapping occurrence of \<open>old\<close>, from the left.
  With an empty \<open>old\<close> Python puts \<open>new\<close> before every character and at the end.
\<close>

function replace :: "string \<Rightarrow> string \<Rightarrow> string \<Rightarrow> string" where
  "replace old new [] = (if old = [] then new else [])"
| "replace old new (c # cs) =
     (if old = [] then new @ c # replace old new cs
      else if take (length old) (c # cs) = old
           then new @ replace old new (drop (length old) (c # cs))
           else c # replace old new cs)"
  by pat_completeness auto
termination
  by (relation "measure (\<lambda>(old, new, s). length s)") auto

section \<open>Login\<close>

record login_request =
  lr_username :: string
  lr_password :: string

datatype status_message = User_created | Login_successful | Log_deleted

definition login :: "login_request \<Rightarrow> db \<Rightarrow> (error + status_message) \<times> db" where
  "login request d =
     (case find_user (lr_username request) d of
        None \<Rightarrow>
          (let u = \<lparr>uid = user_seq d, username = lr_username request,
                    password = lr_password request\<rparr>
           in (Inr User_created, d\<lparr>users := users d @ [u], user_seq := user_seq d + 1\<rparr>))
      | Some u \<Rightarrow>
          if password u \<noteq> lr_password request
          then (Inl (HTTPException 401 ''Incorrect password''), d)
          else (Inr Login_successful, d))"

section \<open>Food description analysis\<close>

text \<open>
  The generative service is an opaque function from a prompt to text, and the same
  prompt can be answered differently each time, so the outcome of each
  \<^verbatim>\<open>generate_content\<close> / \<^verbatim>\<open>json.loads\<close> pair is an input of the model.
  \<open>Raised\<close> stands for every exception before the first field is read: the service
  call fails, the text is not JSON, or the decoded value is not an object (then
  \<^verbatim>\<open>.get\<close> raises \<^verbatim>\<open>AttributeError\<close>); the same \<^verbatim>\<open>except\<close> catches them all.

  A field of the extraction reply is \<open>None\<close> when its key is missing. The value under
  \<^verbatim>\<open>"quantity"\<close> is classified by what \<^verbatim>\<open>float()\<close> does with it: \<open>Numeric r\<close>
  converts to \<open>r\<close>, \<open>Non_numeric\<close> makes \<^verbatim>\<open>float()\<close> raise. The values under
  \<^verbatim>\<open>"unit"\<close> and \<^verbatim>\<open>"item_name"\<close> are a JSON string or something without
  \<^verbatim>\<open>.lower()\<close>.
\<close>

datatype 'a reply = Raised | Decoded 'a

datatype qval = Numeric real | Non_numeric

datatype sval = Str string | Non_string

record parsed_result =
  pr_quantity :: "qval option"
  pr_unit :: "sval option"
  pr_item_name :: "sval option"

text \<open>
  The nutrition reply. \<^verbatim>\<open>"name"\<close>, when present, is a string; each of the five
  values, when present, is a number or \<^verbatim>\<open>null\<close>. What the backend does with any
  other JSON value in these columns depends on the backend and is not modelled.
\<close>

datatype nval = Num real | Null

record nutrition_data =
  nd_name :: "string option"
  nd_calories :: "nval option"
  nd_protein :: "nval option"
  nd_carbs :: "nval option"
  nd_fat :: "nval option"
  nd_fiber :: "nval option"

text \<open>\<^verbatim>\<open>nutrition_data.get(key, 0)\<close> as the value of a nullable Float column.\<close>

fun get_or_0 :: "nval option \<Rightarrow> real option" where
  "get_or_0 None = Some 0"
| "get_or_0 (Some Null) = None"
| "get_or_0 (Some (Num r)) = Some r"

text \<open>\<^verbatim>\<open>float(quantity)\<close>, outside every \<^verbatim>\<open>try\<close>.\<close>

fun py_float :: "qval \<Rightarrow> error + real" where
  "py_float (Numeric r) = Inr r"
| "py_float Non_numeric = Inl Unhandled"

text \<open>
  Lines 154 to 159: the three fields with their defaults, unit and name lower-cased.
  \<^verbatim>\<open>.lower()\<close> on a value that is not a string raises inside the \<^verbatim>\<open>try\<close>.
\<close>

definition ai_parsing_failed :: error where
  "ai_parsing_failed = HTTPException 500 ''AI parsing failed: ''"

definition extract_fields :: "parsed_result reply \<Rightarrow> error + (qval \<times> string \<times> string)" where
  "extract_fields r =
     (case r of
        Raised \<Rightarrow> Inl ai_parsing_failed
      | Decoded p \<Rightarrow>
          (let q = (case pr_quantity p of None \<Rightarrow> Numeric 1 | Some v \<Rightarrow> v) in
           case (case pr_unit p of None \<Rightarrow> Str ''unit'' | Some v \<Rightarrow> v) of
             Non_string \<Rightarrow> Inl ai_parsing_failed
           | Str u \<Rightarrow>
               (case (case pr_item_name p of None \<Rightarrow> Str [] | Some v \<Rightarrow> v) of
                  Non_string \<Rightarrow> Inl ai_parsing_failed
                | Str n \<Rightarrow> Inr (q, lower u, lower n))))"

text \<open>
  Lines 161 to 167: the quantity (already through \<^verbatim>\<open>float()\<close>) and the serving
  label.
\<close>

definition normalize :: "real \<Rightarrow> string \<Rightarrow> real \<times> string" where
  "normalize q unit =
     (if unit \<in> set [''ml'', ''g'', ''gram'', ''grams'']
      then (q / 100, ''100'' @ replace ''s'' [] (replace ''gram'' ''g'' unit))
      else (q, unit))"

record food_analysis_request =
  far_description :: string
  far_username :: string

record analysis_response =
  ar_item :: food_item
  ar_quantity :: real
  ar_new :: bool

definition find_item :: "int \<Rightarrow> string \<Rightarrow> db \<Rightarrow> food_item option" where
  "find_item owner n d =
     find (\<lambda>i. item_user_id i = owner \<and> item_name i = n) (food_items d)"

definition new_food_item :: "nutrition_data \<Rightarrow> string \<Rightarrow> string \<Rightarrow> int \<Rightarrow> int \<Rightarrow> food_item" where
  "new_food_item nd item_name_raw serving owner new_id =
     \<lparr>item_id = new_id,
      item_name = (case nd_name nd of None \<Rightarrow> item_name_raw | Some n \<Rightarrow> n),
      calories = get_or_0 (nd_calories nd),
      protein = get_or_0 (nd_protein nd),
      carbs = get_or_0 (nd_carbs nd),
      fat = get_or_0 (nd_fat nd),
      fiber = get_or_0 (nd_fiber nd),
      serving_size_unit = serving,
      item_user_id = owner\<rparr>"

definition analyze_and_find_food ::
  "parsed_result reply \<Rightarrow> nutrition_data reply \<Rightarrow> food_analysis_request \<Rightarrow> db
     \<Rightarrow> (error + analysis_response) \<times> db" where
  "analyze_and_find_food parsing nutrition request d =
     (case find_user (far_username request) d of
        None \<Rightarrow> (Inl (HTTPException 404 ''User not found''), d)
      | Some u \<Rightarrow>
          (case extract_fields parsing of
             Inl e \<Rightarrow> (Inl e, d)
           | Inr (qv, unit, item_name_raw) \<Rightarrow>
               (case py_float qv of
                  Inl e \<Rightarrow> (Inl e, d)
                | Inr q \<Rightarrow>
                    (let (normalized_quantity, serving) = normalize q unit in
                     case find_item (uid u) item_name_raw d of
                       Some existing_item \<Rightarrow>
                         (Inr \<lparr>ar_item = existing_item, ar_quantity = normalized_quantity,
                               ar_new = False\<rparr>, d)
                     | None \<Rightarrow>
                         (case nutrition of
                            Raised \<Rightarrow>
                              (Inl (HTTPException 500 ''AI nutrition fetch failed: ''), d)
                          | Decoded nd \<Rightarrow>
                              (let new_item = new_food_item nd item_name_raw serving
                                                (uid u) (item_seq d)
                               in (Inr \<lparr>ar_item = new_item,
                                         ar_quantity = normalized_quantity, ar_new = True\<rparr>,
                                   d\<lparr>food_items := food_items d @ [new_item],
                                      item_seq := item_seq d + 1\<rparr>)))))))"

section \<open>Food items and food logs\<close>

text \<open>
  The routes of lines 205, 212 and 223 declare a \<^verbatim>\<open>response_model\<close>: what the
  handler returns is validated against it before it is sent, and a value that does not
  fit is an exception that nothing catches (the framework answers 500), after whatever
  the handler has committed. \<^verbatim>\<open>FoodItemInDB\<close> requires the five nutrition values to
  be floats, so an item with a \<^verbatim>\<open>NULL\<close> among them does not fit;
  \<^verbatim>\<open>FoodLogInDB\<close> requires \<^verbatim>\<open>food_item\<close> to be such an item, so a log whose
  related item is \<^verbatim>\<open>None\<close> does not fit either.
\<close>

definition valid_food_item :: "food_item \<Rightarrow> bool" where
  "valid_food_item i \<longleftrightarrow>
     calories i \<noteq> None \<and> protein i \<noteq> None \<and> carbs i \<noteq> None \<and> fat i \<noteq> None \<and>
     fiber i \<noteq> None"

definition valid_food_log :: "food_log \<times> food_item option \<Rightarrow> bool" where
  "valid_food_log r = (case snd r of None \<Rightarrow> False | Some i \<Rightarrow> valid_food_item i)"

text \<open>
  \<^verbatim>\<open>order_by(FoodItem.name)\<close> is modelled by a stable sort on the names, compared
  character by character (the collation of the backend is not part of the source).
\<close>

definition get_user_food_items :: "string \<Rightarrow> db \<Rightarrow> (error + food_item list) \<times> db" where
  "get_user_food_items name d =
     (case find_user name d of
        None \<Rightarrow> (Inl (HTTPException 404 ''User not found''), d)
      | Some u \<Rightarrow>
          (let items = sort_key item_name
                 (filter (\<lambda>i. item_user_id i = uid u) (food_items d))
           in if list_all valid_food_item items then (Inr items, d)
              else (Inl Unhandled, d)))"

record food_log_create =
  flc_date :: date
  flc_meal_type :: string
  flc_quantity :: real
  flc_food_item_id :: int

text \<open>
  The relationship \<^verbatim>\<open>FoodLog.food_item\<close>: the row of \<open>food_items\<close> with the log's
  \<open>food_item_id\<close>, or \<^verbatim>\<open>None\<close>. A handler that returns a log returns the ORM object,
  modelled as the row with its related item.
\<close>

definition food_item_of :: "db \<Rightarrow> food_log \<Rightarrow> food_item option" where
  "food_item_of d l = find (\<lambda>i. item_id i = food_item_id l) (food_items d)"

text \<open>
  \<^verbatim>\<open>food_item_id: int\<close> of the payload is an unbounded integer of Python; the
  \<^verbatim>\<open>Integer\<close> column holds a signed integer of 64 bits (the \<^verbatim>\<open>INTEGER\<close> of SQLite,
  the backend that, like the store here, does not enforce the declared foreign keys).
  Outside that range the driver raises when the row is flushed by
  \<^verbatim>\<open>db.commit()\<close>, and nothing is stored.
\<close>

definition integer_column :: "int \<Rightarrow> bool" where
  "integer_column i \<longleftrightarrow> - (2 ^ 63) \<le> i \<and> i < 2 ^ 63"

definition create_food_log ::
  "string \<Rightarrow> food_log_create \<Rightarrow> db \<Rightarrow> (error + food_log \<times> food_item option) \<times> db" where
  "create_food_log name payload d =
     (case find_user name d of
        None \<Rightarrow> (Inl (HTTPException 404 ''User not found''), d)
      | Some u \<Rightarrow>
          if \<not> integer_column (flc_food_item_id payload) then (Inl Unhandled, d)
          else
            (let db_log = \<lparr>log_id = log_seq d, log_date = flc_date payload,
                           meal_type = flc_meal_type payload, quantity = flc_quantity payload,
                           log_user_id = uid u, food_item_id = flc_food_item_id payload\<rparr>;
                 d' = d\<lparr>food_logs := food_logs d @ [db_log], log_seq := log_seq d + 1\<rparr>;
                 r = (db_log, food_item_of d' db_log)
             in if valid_food_log r then (Inr r, d') else (Inl Unhandled, d')))"

definition get_logs_for_date ::
  "string \<Rightarrow> date \<Rightarrow> db \<Rightarrow> (error + (food_log \<times> food_item option) list) \<times> db" where
  "get_logs_for_date name dt d =
     (case find_user name d of
        None \<Rightarrow> (Inl (HTTPException 404 ''User not found''), d)
      | Some u \<Rightarrow>
          (let rows = map (\<lambda>l. (l, food_item_of d l))
                 (filter (\<lambda>l. log_user_id l = uid u \<and> log_date l = dt) (food_logs d))
           in if list_all valid_food_log rows then (Inr rows, d) else (Inl Unhandled, d)))"

text \<open>
  \<^verbatim>\<open>db.delete(log_to_delete)\<close> deletes by primary key: every row with the
  identifier of the row found.
\<close>

definition delete_log :: "int \<Rightarrow> db \<Rightarrow> (error + status_message) \<times> db" where
  "delete_log i d =
     (case find (\<lambda>l. log_id l = i) (food_logs d) of
        None \<Rightarrow> (Inl (HTTPException 404 ''Log not found''), d)
      | Some log_to_delete \<Rightarrow>
          (Inr Log_deleted,
           d\<lparr>food_logs := filter (\<lambda>l. log_id l \<noteq> log_id log_to_delete) (food_logs d)\<rparr>))"

section \<open>Calendar aggregate\<close>

text \<open>
  \<^verbatim>\<open>date.isoformat()\<close>, that is \<^verbatim>\<open>"%04d-%02d-%02d"\<close>. A Python date has a year
  from 1 to 9999, so four digits are all the digits of the year.
\<close>

definition digit :: "nat \<Rightarrow> char" where
  "digit n = ''0123456789'' ! (n mod 10)"

definition isoformat :: "date \<Rightarrow> string" where
  "isoformat dt =
     [digit (year dt div 1000), digit (year dt div 100), digit (year dt div 10),
      digit (year dt)] @ ''-'' @
     [digit (month dt div 10), digit (month dt)] @ ''-'' @
     [digit (day dt div 10), digit (day dt)]"

definition date_in_range :: "date \<Rightarrow> bool" where
  "date_in_range dt \<longleftrightarrow>
     1 \<le> year dt \<and> year dt \<le> 9999 \<and> 1 \<le> month dt \<and> month dt \<le> 12 \<and>
     1 \<le> day dt \<and> day dt \<le> 31"

text \<open>
  The query of lines 246 to 260. The inner join pairs a log with every food item whose
  identifier it names; the filter keeps the logs of the user.
\<close>

definition joined_logs :: "int \<Rightarrow> db \<Rightarrow> (food_log \<times> food_item) list" where
  "joined_logs owner d =
     [(l, i). l \<leftarrow> food_logs d, i \<leftarrow> food_items d,
        food_item_id l = item_id i, log_user_id l = owner]"

text \<open>\<^verbatim>\<open>FoodLog.quantity * FoodItem.calories\<close>: \<^verbatim>\<open>NULL\<close> when the calories are.\<close>

definition line_calories :: "food_log \<times> food_item \<Rightarrow> real option" where
  "line_calories r = map_option (\<lambda>c. quantity (fst r) * c) (calories (snd r))"

text \<open>SQL \<^verbatim>\<open>SUM\<close>: the sum of the values that are not \<^verbatim>\<open>NULL\<close>, \<^verbatim>\<open>NULL\<close> when there is none.\<close>

fun sql_sum :: "real option list \<Rightarrow> real option" where
  "sql_sum [] = None"
| "sql_sum (None # vs) = sql_sum vs"
| "sql_sum (Some v # vs) = Some (case sql_sum vs of None \<Rightarrow> v | Some s \<Rightarrow> v + s)"

definition calories_per_day :: "int \<Rightarrow> db \<Rightarrow> (date \<times> real option) list" where
  "calories_per_day owner d =
     (let rows = joined_logs owner d
      in map (\<lambda>dt. (dt, sql_sum (map line_calories (filter (\<lambda>r. log_date (fst r) = dt) rows))))
           (remdups (map (\<lambda>r. log_date (fst r)) rows)))"

text \<open>The dictionary comprehension of lines 264 to 268; a later key replaces an earlier one.\<close>

fun calendar_dict :: "(date \<times> real option) list \<Rightarrow> (string \<rightharpoonup> real) \<Rightarrow> (string \<rightharpoonup> real)" where
  "calendar_dict [] m = m"
| "calendar_dict ((dt, None) # rs) m = calendar_dict rs m"
| "calendar_dict ((dt, Some total_calories) # rs) m =
     calendar_dict rs (m(isoformat dt \<mapsto> total_calories))"

text \<open>
  \<open>query_raises\<close> says whether the query raises (a failure of the backend); the
  \<^verbatim>\<open>except\<close> of line 272 turns that into a 500.
\<close>

definition get_calendar_data ::
  "bool \<Rightarrow> string \<Rightarrow> db \<Rightarrow> (error + (string \<rightharpoonup> real)) \<times> db" where
  "get_calendar_data query_raises name d =
     (case find_user name d of
        None \<Rightarrow> (Inl (HTTPException 404 ''User not found''), d)
      | Some u \<Rightarrow>
          if query_raises
          then (Inl (HTTPException 500 ''Error fetching calendar data: ''), d)
          else (Inr (calendar_dict (calories_per_day (uid u) d) Map.empty), d))"

section \<open>A sample database\<close>

text \<open>
  Two users. Ann owns milk (5 calories per 100ml) and an apple, Bob owns bread. Ann logged
  2 and 3 servings of milk on 15 January 2024 and one serving of an item that does not
  exist (identifier 99) on 16 January; Bob logged bread on 15 January.
\<close>

definition ann :: user where
  "ann = \<lparr>uid = 1, username = ''ann'', password = ''secret''\<rparr>"

definition bob :: user where
  "bob = \<lparr>uid = 2, username = ''bob'', password = ''hunter2''\<rparr>"

definition milk :: food_item where
  "milk = \<lparr>item_id = 1, item_name = ''milk'', calories = Some 5, protein = Some 3,
     carbs = Some 5, fat = Some 1, fiber = Some 0, serving_size_unit = ''100ml'',
     item_user_id = 1\<rparr>"

definition apple :: food_item where
  "apple = \<lparr>item_id = 2, item_name = ''apple'', calories = Some 52, protein = Some 0,
     carbs = Some 14, fat = Some 0, fiber = Some 2, serving_size_unit = ''unit'',
     item_user_id = 1\<rparr>"

definition bread :: food_item where
  "bread = \<lparr>item_id = 3, item_name = ''bread'', calories = Some 80, protein = Some 3,
     carbs = Some 15, fat = Some 1, fiber = Some 1, serving_size_unit = ''slice'',
     item_user_id = 2\<rparr>"

definition sample_logs :: "food_log list" where
  "sample_logs =
     [\<lparr>log_id = 1, log_date = Date 2024 1 15, meal_type = ''breakfast'', quantity = 2,
        log_user_id = 1, food_item_id = 1\<rparr>,
      \<lparr>log_id = 2, log_date = Date 2024 1 15, meal_type = ''lunch'', quantity = 3,
        log_user_id = 1, food_item_id = 1\<rparr>,
      \<lparr>log_id = 3, log_date = Date 2024 1 16, meal_type = ''dinner'', quantity = 1,
        log_user_id = 1, food_item_id = 99\<rparr>,
      \<lparr>log_id = 4, log_date = Date 2024 1 15, meal_type = ''lunch'', quantity = 1,
        log_user_id = 2, food_item_id = 3\<rparr>]"

definition sample_db :: db where
  "sample_db = \<lparr>users = [ann, bob], food_items = [milk, apple, bread],
     food_logs = sample_logs, user_seq = 3, item_seq = 4, log_seq = 5\<rparr>"

section \<open>Two analyses of the same description\<close>

text \<open>
  Bob describes \<^verbatim>\<open>500ml of milk\<close>. The extraction reply is
  \<^verbatim>\<open>{"quantity": 500, "unit": "ml", "item_name": "milk"}\<close> and the nutrition reply
  is \<^verbatim>\<open>{"name": "Milk", "calories": 42, "protein": 3, "carbs": 5, "fat": 1, "fiber": 0}\<close>,
  with the cleaned-up name the prompt asks for. \<open>bob_milk i\<close> is the food item that the
  handler builds from these replies under the identifier \<open>i\<close>.
\<close>

definition milk_request :: food_analysis_request where
  "milk_request = \<lparr>far_description = ''500ml of milk'', far_username = ''bob''\<rparr>"

definition milk_parsed :: "parsed_result reply" where
  "milk_parsed = Decoded \<lparr>pr_quantity = Some (Numeric 500), pr_unit = Some (Str ''ml''),
     pr_item_name = Some (Str ''milk'')\<rparr>"

definition milk_nutrition :: "nutrition_data reply" where
  "milk_nutrition = Decoded \<lparr>nd_name = Some ''Milk'', nd_calories = Some (Num 42),
     nd_protein = Some (Num 3), nd_carbs = Some (Num 5), nd_fat = Some (Num 1),
     nd_fiber = Some (Num 0)\<rparr>"

definition bob_milk :: "int \<Rightarrow> food_item" where
  "bob_milk i = \<lparr>item_id = i, item_name = ''Milk'', calories = Some 42, protein = Some 3,
     carbs = Some 5, fat = Some 1, fiber = Some 0, serving_size_unit = ''100ml'',
     item_user_id = 2\<rparr>"




section \<open>The calendar in the words of the specification\<close>

text \<open>
  The total of a user on a day, read off the tables without the query: the logs of the
  user on that day, each with the food items that have its \<open>food_item_id\<close> and calories
  that are not \<^verbatim>\<open>NULL\<close>, contribute quantity times calories. The day has a total when
  there is at least one contribution.
\<close>

definition spec_day_values :: "int \<Rightarrow> db \<Rightarrow> date \<Rightarrow> real list" where
  "spec_day_values owner d dt =
     [quantity l * c. l \<leftarrow> food_logs d, log_user_id l = owner \<and> log_date l = dt,
        i \<leftarrow> food_items d, item_id i = food_item_id l, Some c \<leftarrow> [calories i]]"

definition spec_calendar :: "int \<Rightarrow> db \<Rightarrow> date \<Rightarrow> real option" where
  "spec_calendar owner d dt =
     (if spec_day_values owner d dt = [] then None
      else Some (sum_list (spec_day_values owner d dt)))"

text \<open>The values of a column that are not \<^verbatim>\<open>NULL\<close>.\<close>

fun non_null :: "'a option list \<Rightarrow> 'a list" where
  "non_null [] = []"
| "non_null (None # vs) = non_null vs"
| "non_null (Some v # vs) = v # non_null vs"

section \<open>Primary keys\<close>

text \<open>
  What the backend guarantees for the three \<^verbatim>\<open>primary_key=True\<close> columns: no two
  rows of a table share an identifier, and every identifier was drawn from the
  sequence. Every handler keeps it, starting from the empty database.
\<close>

definition primary_keys :: "db \<Rightarrow> bool" where
  "primary_keys d \<longleftrightarrow>
     distinct (map uid (users d)) \<and> list_all (\<lambda>u. uid u < user_seq d) (users d) \<and>
     distinct (map item_id (food_items d)) \<and>
     list_all (\<lambda>i. item_id i < item_seq d) (food_items d) \<and>
     distinct (map log_id (food_logs d)) \<and> list_all (\<lambda>l. log_id l < log_seq d) (food_logs d)"

section \<open>Users\<close>

lemma find_user_None_iff: "find_user n d = None \<longleftrightarrow> n \<notin> username ` set (users d)"
  by (auto simp: find_user_def find_None_iff)

lemma find_user_SomeD: "find_user n d = Some u \<Longrightarrow> u \<in> set (users d) \<and> username u = n"
  by (auto simp: find_user_def find_Some_iff)

lemma find_user_ann: "find_user ''ann'' sample_db = Some ann"
  by (simp add: find_user_def sample_db_def ann_def)

lemma find_user_bob: "find_user ''bob'' sample_db = Some bob"
  by (simp add: find_user_def sample_db_def ann_def bob_def)


section \<open>Unit normalization\<close>

text \<open>
  Claim C1. For a unit among \<^verbatim>\<open>ml\<close>, \<^verbatim>\<open>g\<close>, \<^verbatim>\<open>gram\<close>, \<^verbatim>\<open>grams\<close> the normalized
  quantity is the extracted quantity divided by 100 and the serving label is
  \<^verbatim>\<open>100ml\<close> for \<^verbatim>\<open>ml\<close> and \<^verbatim>\<open>100g\<close> for the three others; for every other unit
  quantity and label pass through. 500 \<^verbatim>\<open>ml\<close> give 5 and \<^verbatim>\<open>100ml\<close>; 1 \<^verbatim>\<open>unit\<close>
  gives 1 and \<^verbatim>\<open>unit\<close>.
\<close>

theorem normalize_units:
  "(unit \<in> set [''ml'', ''g'', ''gram'', ''grams''] \<longrightarrow>
      normalize q unit = (q / 100, if unit = ''ml'' then ''100ml'' else ''100g''))
   \<and> (unit \<notin> set [''ml'', ''g'', ''gram'', ''grams''] \<longrightarrow> normalize q unit = (q, unit))
   \<and> normalize 500 ''ml'' = (5, ''100ml'')
   \<and> normalize 1 ''unit'' = (1, ''unit'')"
  by (auto simp: normalize_def)

theorem normalize_units_witness:
  "''grams'' \<in> set [''ml'', ''g'', ''gram'', ''grams'']
   \<and> normalize 250 ''grams'' = (5 / 2, ''100g'')
   \<and> ''slice'' \<notin> set [''ml'', ''g'', ''gram'', ''grams'']
   \<and> normalize 2 ''slice'' = (2, ''slice'')"
  using normalize_units [of "''grams''" 250] normalize_units [of "''slice''" 2] by simp

text \<open>
  The handler answers with the normalized quantity, and a new item carries the serving
  label.
\<close>

lemma analyze_uses_normalize:
  assumes "analyze_and_find_food parsing nutrition request d = (Inr r, d')"
    and "extract_fields parsing = Inr (Numeric q, unit, n)"
  shows "ar_quantity r = fst (normalize q unit)"
    and "ar_new r \<Longrightarrow> serving_size_unit (ar_item r) = snd (normalize q unit)"
  using assms
  by (auto simp: analyze_and_find_food_def new_food_item_def Let_def
      split: option.splits reply.splits prod.splits)

section \<open>Login\<close>

text \<open>
  Claim C3. A login whose username no user row has inserts exactly one user row, with
  that username and password, reports the creation and is never answered with 401.
\<close>

theorem login_first_seen:
  assumes "lr_username request \<notin> username ` set (users d)"
  shows "login request d =
           (Inr User_created,
            d\<lparr>users := users d @ [\<lparr>uid = user_seq d, username = lr_username request,
                                     password = lr_password request\<rparr>],
              user_seq := user_seq d + 1\<rparr>)
         \<and> length (users (snd (login request d))) = length (users d) + 1
         \<and> food_items (snd (login request d)) = food_items d
         \<and> food_logs (snd (login request d)) = food_logs d
         \<and> (\<forall>e. fst (login request d) = Inl e \<longrightarrow> status_code e \<noteq> 401)"
  using assms by (simp add: login_def find_user_None_iff [symmetric])

theorem login_first_seen_witness:
  "''carol'' \<notin> username ` set (users sample_db)
   \<and> login \<lparr>lr_username = ''carol'', lr_password = ''pw''\<rparr> sample_db =
       (Inr User_created,
        sample_db\<lparr>users := [ann, bob, \<lparr>uid = 3, username = ''carol'', password = ''pw''\<rparr>],
                  user_seq := 4\<rparr>)"
proof -
  have h: "lr_username \<lparr>lr_username = ''carol'', lr_password = ''pw''\<rparr>
             \<notin> username ` set (users sample_db)"
    by (simp add: sample_db_def ann_def bob_def)
  from login_first_seen [OF h] h show ?thesis
    by (simp add: sample_db_def)
qed

text \<open>
  Claim C4. A login for an existing username with a password that differs from the
  stored one fails with 401 and leaves the three tables as they were.
\<close>

theorem login_wrong_password:
  assumes "find_user (lr_username request) d = Some u"
    and "password u \<noteq> lr_password request"
  shows "login request d = (Inl (HTTPException 401 ''Incorrect password''), d)"
  using assms by (simp add: login_def)

theorem login_wrong_password_witness:
  "find_user ''ann'' sample_db = Some ann \<and> password ann \<noteq> ''Secret''
   \<and> login \<lparr>lr_username = ''ann'', lr_password = ''Secret''\<rparr> sample_db =
       (Inl (HTTPException 401 ''Incorrect password''), sample_db)"
proof -
  have p: "password ann \<noteq> lr_password \<lparr>lr_username = ''ann'', lr_password = ''Secret''\<rparr>"
    by (simp add: ann_def)
  have f: "find_user (lr_username \<lparr>lr_username = ''ann'', lr_password = ''Secret''\<rparr>)
             sample_db = Some ann"
    by (simp add: find_user_ann)
  from login_wrong_password [OF f p] f p show ?thesis by simp
qed

section \<open>Read endpoints\<close>

text \<open>
  Claim C9. The food item listing, the logs of a date and the calendar aggregate return
  the database they were given, whatever the input and the outcome (404 and 500
  included).
\<close>

theorem reads_keep_db:
  "snd (get_user_food_items n d) = d \<and> snd (get_logs_for_date n dt d) = d
     \<and> snd (get_calendar_data q n d) = d"
  by (simp add: get_user_food_items_def get_logs_for_date_def get_calendar_data_def Let_def
        split: option.split)










section \<open>Food logs\<close>

lemma filter_other_ids:
  assumes "distinct (map log_id ls)" and "l \<in> set ls"
  shows "filter (\<lambda>r. log_id r \<noteq> log_id l) ls = remove1 l ls"
  using assms
proof (induction ls)
  case Nil
  then show ?case by simp
next
  case (Cons a ls)
  show ?case
  proof (cases "a = l")
    case True
    with Cons.prems have "log_id l \<notin> log_id ` set ls" by simp
    then have "\<forall>r\<in>set ls. log_id r \<noteq> log_id l" by (metis image_eqI)
    then have "filter (\<lambda>r. log_id r \<noteq> log_id l) ls = ls" by (simp add: filter_id_conv)
    with True show ?thesis by simp
  next
    case False
    with Cons.prems have "l \<in> set ls" and "log_id a \<noteq> log_id l" by auto
    with Cons False show ?thesis by auto
  qed
qed

lemma find_log_unique:
  assumes "distinct (map log_id ls)" and "l \<in> set ls"
  shows "find (\<lambda>r. log_id r = log_id l) ls = Some l"
  using assms by (induction ls) auto

text \<open>
  Claim C7. Deleting an identifier that no log has gives 404 and leaves the log table
  (and the rest) as it was. Deleting the identifier of a log removes that row and no
  other, whoever owns it: nothing in the statement mentions the owner.
\<close>

theorem delete_log_cases:
  "((\<forall>l\<in>set (food_logs d). log_id l \<noteq> i) \<longrightarrow>
      delete_log i d = (Inl (HTTPException 404 ''Log not found''), d))
   \<and> (\<forall>l. l \<in> set (food_logs d) \<and> log_id l = i \<and> distinct (map log_id (food_logs d)) \<longrightarrow>
        delete_log i d = (Inr Log_deleted, d\<lparr>food_logs := remove1 l (food_logs d)\<rparr>)
        \<and> length (remove1 l (food_logs d)) + 1 = length (food_logs d))"
proof (intro conjI impI allI)
  assume "\<forall>l\<in>set (food_logs d). log_id l \<noteq> i"
  then have "find (\<lambda>l. log_id l = i) (food_logs d) = None"
    by (simp add: find_None_iff)
  then show "delete_log i d = (Inl (HTTPException 404 ''Log not found''), d)"
    by (simp add: delete_log_def)
next
  fix l
  assume a: "l \<in> set (food_logs d) \<and> log_id l = i \<and> distinct (map log_id (food_logs d))"
  then have "find (\<lambda>r. log_id r = i) (food_logs d) = Some l"
    using find_log_unique [of "food_logs d" l] by auto
  moreover from a have "filter (\<lambda>r. log_id r \<noteq> log_id l) (food_logs d) = remove1 l (food_logs d)"
    using filter_other_ids [of "food_logs d" l] by blast
  ultimately show "delete_log i d = (Inr Log_deleted, d\<lparr>food_logs := remove1 l (food_logs d)\<rparr>)"
    by (simp add: delete_log_def)
  from a have "0 < length (food_logs d)"
    by (auto simp: length_pos_if_in_set)
  with a show "length (remove1 l (food_logs d)) + 1 = length (food_logs d)"
    by (simp add: length_remove1)
qed

lemma sample_log_ids: "map log_id (food_logs sample_db) = [1, 2, 3, 4]"
  by (simp add: sample_db_def sample_logs_def)

theorem delete_log_cases_witness:
  "77 \<notin> set (map log_id (food_logs sample_db))
   \<and> delete_log 77 sample_db = (Inl (HTTPException 404 ''Log not found''), sample_db)
   \<and> sample_logs ! 3 \<in> set (food_logs sample_db) \<and> log_id (sample_logs ! 3) = 4
   \<and> log_user_id (sample_logs ! 3) = uid bob
   \<and> distinct (map log_id (food_logs sample_db))
   \<and> delete_log 4 sample_db =
        (Inr Log_deleted, sample_db\<lparr>food_logs := take 3 sample_logs\<rparr>)
   \<and> length (take 3 sample_logs) + 1 = length (food_logs sample_db)"
proof -
  have none: "\<forall>l\<in>set (food_logs sample_db). log_id l \<noteq> 77"
    by (simp add: sample_db_def sample_logs_def)
  have mem: "sample_logs ! 3 \<in> set (food_logs sample_db) \<and> log_id (sample_logs ! 3) = 4
      \<and> distinct (map log_id (food_logs sample_db))"
    by (simp add: sample_db_def sample_logs_def)
  have rem: "remove1 (sample_logs ! 3) (food_logs sample_db) = take 3 sample_logs"
    by (simp add: sample_db_def sample_logs_def)
  have own: "log_user_id (sample_logs ! 3) = uid bob"
    by (simp add: sample_logs_def bob_def)
  from delete_log_cases [of sample_db 77] none
  have "delete_log 77 sample_db = (Inl (HTTPException 404 ''Log not found''), sample_db)"
    by blast
  moreover from delete_log_cases [of sample_db 4] mem rem
  have "delete_log 4 sample_db = (Inr Log_deleted, sample_db\<lparr>food_logs := take 3 sample_logs\<rparr>)
      \<and> length (take 3 sample_logs) + 1 = length (food_logs sample_db)"
    by metis
  moreover have "77 \<notin> set (map log_id (food_logs sample_db))"
    by (simp add: sample_log_ids)
  ultimately show ?thesis using mem own by blast
qed








section \<open>The handlers keep the primary keys\<close>

lemma primary_keys_empty: "primary_keys empty_db"
  by (simp add: primary_keys_def empty_db_def)

lemma list_all_less_mono:
  fixes n :: int
  shows "list_all (\<lambda>x. f x < n) xs \<Longrightarrow> list_all (\<lambda>x. f x \<le> n) xs"
  by (induction xs) auto

lemma fresh_key:
  fixes n :: int
  shows "list_all (\<lambda>x. f x < n) xs \<Longrightarrow> n \<notin> f ` set xs"
  by (induction xs) auto

lemma primary_keys_login: "primary_keys d \<Longrightarrow> primary_keys (snd (login request d))"
  by (auto simp: primary_keys_def login_def list_all_less_mono fresh_key
      split: option.splits)

lemma primary_keys_create_food_log:
  "primary_keys d \<Longrightarrow> primary_keys (snd (create_food_log n p d))"
  by (auto simp: primary_keys_def create_food_log_def Let_def list_all_less_mono fresh_key
      split: option.splits if_splits)

lemma primary_keys_delete_log: "primary_keys d \<Longrightarrow> primary_keys (snd (delete_log i d))"
  by (auto simp: primary_keys_def delete_log_def distinct_map_filter list_all_iff
      split: option.splits)

lemma primary_keys_analyze:
  "primary_keys d \<Longrightarrow> primary_keys (snd (analyze_and_find_food parsing nutrition request d))"
  by (auto simp: primary_keys_def analyze_and_find_food_def new_food_item_def Let_def
      list_all_less_mono fresh_key
      split: option.splits sum.splits prod.splits reply.splits)

lemma primary_keys_sample: "primary_keys sample_db"
  by (simp add: primary_keys_def sample_db_def sample_logs_def ann_def bob_def
      milk_def apple_def bread_def)

section \<open>Calendar aggregate\<close>

subsection \<open>ISO dates\<close>

lemma digit_eq_iff: "digit a = digit b \<longleftrightarrow> a mod 10 = b mod 10"
proof -
  have "distinct ''0123456789''" by simp
  moreover have "a mod 10 < length ''0123456789''" "b mod 10 < length ''0123456789''"
    by simp_all
  ultimately show ?thesis unfolding digit_def by (rule nth_eq_iff_index_eq)
qed

lemma two_digits:
  fixes a b :: nat
  assumes "a div 10 mod 10 = b div 10 mod 10" "a mod 10 = b mod 10" "a < 100" "b < 100"
  shows "a = b"
proof -
  have "a div 10 < 10" "b div 10 < 10"
    using assms(3,4) by (simp_all add: less_mult_imp_div_less)
  with assms(1) have e: "a div 10 = b div 10" by simp
  have "a = 10 * (a div 10) + a mod 10" by (simp only: mult_div_mod_eq)
  also have "\<dots> = 10 * (b div 10) + b mod 10" by (simp only: e assms(2))
  also have "\<dots> = b" by (simp only: mult_div_mod_eq)
  finally show ?thesis .
qed

lemma four_digits:
  fixes a b :: nat
  assumes "a div 1000 mod 10 = b div 1000 mod 10" "a div 100 mod 10 = b div 100 mod 10"
    "a div 10 mod 10 = b div 10 mod 10" "a mod 10 = b mod 10" "a < 10000" "b < 10000"
  shows "a = b"
proof -
  have lo: "x mod 100 = 10 * (x div 10 mod 10) + x mod 10" for x :: nat
    using mod_mult2_eq [of x 10 10] by simp
  have hi: "x div 100 div 10 = x div 1000" for x :: nat
    using div_mult2_eq [of x 100 10] by simp
  have "a div 100 div 10 mod 10 = b div 100 div 10 mod 10"
    by (simp only: hi assms(1))
  moreover note assms(2)
  moreover have "a div 100 < 100" "b div 100 < 100"
    using assms(5,6) by (simp_all add: less_mult_imp_div_less)
  ultimately have h: "a div 100 = b div 100"
    by (rule two_digits)
  have l: "a mod 100 = b mod 100" by (simp only: lo assms(3,4))
  have "a = 100 * (a div 100) + a mod 100" by (simp only: mult_div_mod_eq)
  also have "\<dots> = 100 * (b div 100) + b mod 100" by (simp only: h l)
  also have "\<dots> = b" by (simp only: mult_div_mod_eq)
  finally show ?thesis .
qed

lemma isoformat_inj:
  assumes "date_in_range a" "date_in_range b" "isoformat a = isoformat b"
  shows "a = b"
proof -
  from assms(3) have y: "year a div 1000 mod 10 = year b div 1000 mod 10"
      "year a div 100 mod 10 = year b div 100 mod 10"
      "year a div 10 mod 10 = year b div 10 mod 10" "year a mod 10 = year b mod 10"
    and m: "month a div 10 mod 10 = month b div 10 mod 10" "month a mod 10 = month b mod 10"
    and d: "day a div 10 mod 10 = day b div 10 mod 10" "day a mod 10 = day b mod 10"
    by (simp_all add: isoformat_def digit_eq_iff)
  from assms(1,2) have r: "year a < 10000" "year b < 10000" "month a < 100" "month b < 100"
      "day a < 100" "day b < 100"
    by (simp_all add: date_in_range_def)
  have "year a = year b" using y r(1,2) by (rule four_digits)
  moreover have "month a = month b" using m r(3,4) by (rule two_digits)
  moreover have "day a = day b" using d r(5,6) by (rule two_digits)
  ultimately show ?thesis by (simp add: date.expand)
qed

subsection \<open>The sum of a group\<close>

lemma non_null_append: "non_null (xs @ ys) = non_null xs @ non_null ys"
  by (induction xs rule: non_null.induct) simp_all

lemma sql_sum_non_null:
  "sql_sum vs = (if non_null vs = [] then None else Some (sum_list (non_null vs)))"
  by (induction vs rule: sql_sum.induct) simp_all

lemma joined_one_log:
  "non_null (map line_calories
      (filter (\<lambda>r. log_date (fst r) = dt)
         [(l, i). i \<leftarrow> items, food_item_id l = item_id i, log_user_id l = owner])) =
   (if log_user_id l = owner \<and> log_date l = dt
    then [quantity l * c. i \<leftarrow> items, item_id i = food_item_id l, Some c \<leftarrow> [calories i]]
    else [])"
  by (induction items) (auto simp: line_calories_def split: option.splits)

lemma joined_day_values:
  "non_null (map line_calories
      (filter (\<lambda>r. log_date (fst r) = dt) (joined_logs owner d))) = spec_day_values owner d dt"
proof -
  have "non_null (map line_calories
      (filter (\<lambda>r. log_date (fst r) = dt)
         [(l, i). l \<leftarrow> ls, i \<leftarrow> items, food_item_id l = item_id i, log_user_id l = owner])) =
    [quantity l * c. l \<leftarrow> ls, log_user_id l = owner \<and> log_date l = dt,
        i \<leftarrow> items, item_id i = food_item_id l, Some c \<leftarrow> [calories i]]" for ls items
  proof (induction ls)
    case Nil
    then show ?case by simp
  next
    case (Cons l ls)
    show ?case
      using Cons.IH joined_one_log [where l = l and items = items and dt = dt and owner = owner]
      by (simp add: non_null_append)
  qed
  then show ?thesis by (simp add: joined_logs_def spec_day_values_def)
qed

lemma group_total:
  "sql_sum (map line_calories (filter (\<lambda>r. log_date (fst r) = dt) (joined_logs owner d))) =
     spec_calendar owner d dt"
  by (simp add: sql_sum_non_null joined_day_values spec_calendar_def)

lemma no_rows_no_values:
  assumes "dt \<notin> (\<lambda>r. log_date (fst r)) ` set (joined_logs owner d)"
  shows "spec_calendar owner d dt = None"
proof -
  from assms have "filter (\<lambda>r. log_date (fst r) = dt) (joined_logs owner d) = []"
    by (auto simp: filter_empty_conv)
  with group_total [of dt owner d] show ?thesis by simp
qed

subsection \<open>The dictionary\<close>

lemma calendar_dict_other:
  "k \<notin> isoformat ` fst ` set rs \<Longrightarrow> calendar_dict rs m k = m k"
  by (induction rs m rule: calendar_dict.induct) auto

lemma calendar_dict_key:
  assumes "distinct (map fst rs)" and "inj_on isoformat (fst ` set rs)" and "(dt, v) \<in> set rs"
  shows "calendar_dict rs m (isoformat dt) = (case v of None \<Rightarrow> m (isoformat dt) | Some t \<Rightarrow> Some t)"
  using assms
proof (induction rs arbitrary: m)
  case Nil
  then show ?case by simp
next
  case (Cons r rs)
  obtain dt' v' where r: "r = (dt', v')" by (cases r)
  define m' where "m' = (case v' of None \<Rightarrow> m | Some t \<Rightarrow> m(isoformat dt' \<mapsto> t))"
  have step: "calendar_dict (r # rs) m = calendar_dict rs m'"
    by (cases v') (simp_all add: r m'_def)
  show ?case
  proof (cases "dt' = dt")
    case True
    with Cons.prems r have v: "v' = v" and out: "dt \<notin> fst ` set rs"
      by (auto simp: rev_image_eqI)
    from Cons.prems(2) out True r have "isoformat dt \<notin> isoformat ` fst ` set rs"
      by (auto simp: inj_on_def)
    then have "calendar_dict rs m' (isoformat dt) = m' (isoformat dt)"
      by (rule calendar_dict_other)
    moreover have "m' (isoformat dt) = (case v of None \<Rightarrow> m (isoformat dt) | Some t \<Rightarrow> Some t)"
      using v True by (cases v) (simp_all add: m'_def)
    ultimately show ?thesis using step by simp
  next
    case False
    with Cons.prems r have mem: "(dt, v) \<in> set rs" by auto
    then have "dt \<in> fst ` set rs" by (auto simp: rev_image_eqI)
    with Cons.prems(2) False r have ne: "isoformat dt' \<noteq> isoformat dt"
      by (auto simp: inj_on_def)
    from Cons.prems have "distinct (map fst rs)" "inj_on isoformat (fst ` set rs)"
      by (auto simp: inj_on_def)
    from Cons.IH [OF this mem, of m']
    have "calendar_dict rs m' (isoformat dt) =
        (case v of None \<Rightarrow> m' (isoformat dt) | Some t \<Rightarrow> Some t)" .
    moreover have "m' (isoformat dt) = m (isoformat dt)"
      using ne by (cases v') (simp_all add: m'_def)
    ultimately show ?thesis using step by (simp split: option.split)
  qed
qed

lemma calendar_dict_dom: "dom (calendar_dict rs m) \<subseteq> dom m \<union> isoformat ` fst ` set rs"
proof
  fix k
  assume k: "k \<in> dom (calendar_dict rs m)"
  show "k \<in> dom m \<union> isoformat ` fst ` set rs"
  proof (cases "k \<in> isoformat ` fst ` set rs")
    case True
    then show ?thesis by simp
  next
    case False
    then have "calendar_dict rs m k = m k" by (rule calendar_dict_other)
    with k show ?thesis by (simp add: dom_def)
  qed
qed

lemma calories_per_day_keys:
  "map fst (calories_per_day owner d) =
     remdups (map (\<lambda>r. log_date (fst r)) (joined_logs owner d))"
  by (simp add: calories_per_day_def Let_def comp_def)

lemma calories_per_day_row:
  "dt \<in> (\<lambda>r. log_date (fst r)) ` set (joined_logs owner d) \<Longrightarrow>
     (dt, spec_calendar owner d dt) \<in> set (calories_per_day owner d)"
  by (auto simp: calories_per_day_def Let_def group_total image_iff)

lemma joined_logs_dates:
  "r \<in> set (joined_logs owner d) \<Longrightarrow> fst r \<in> set (food_logs d) \<and> log_user_id (fst r) = owner"
  by (auto simp: joined_logs_def split: if_splits)

text \<open>
  The value of the dictionary at the ISO string of a day is the total of the day, given
  that the dates of the logs are dates of Python (years of four digits).
\<close>

lemma calendar_lookup:
  assumes "\<forall>l\<in>set (food_logs d). date_in_range (log_date l)" and "date_in_range dt"
  shows "calendar_dict (calories_per_day owner d) Map.empty (isoformat dt) =
           spec_calendar owner d dt"
proof -
  let ?days = "(\<lambda>r. log_date (fst r)) ` set (joined_logs owner d)"
  have keys: "fst ` set (calories_per_day owner d) = ?days"
    using calories_per_day_keys [of owner d]
    by (metis list.set_map set_remdups)
  have range: "date_in_range x" if "x \<in> ?days" for x
    using that assms(1) joined_logs_dates [of _ owner d] by auto
  show ?thesis
  proof (cases "dt \<in> ?days")
    case True
    have "distinct (map fst (calories_per_day owner d))"
      by (simp add: calories_per_day_keys)
    moreover have "inj_on isoformat (fst ` set (calories_per_day owner d))"
      unfolding keys by (rule inj_onI) (blast intro: isoformat_inj range)
    moreover note calories_per_day_row [OF True]
    ultimately have "calendar_dict (calories_per_day owner d) Map.empty (isoformat dt) =
        (case spec_calendar owner d dt of None \<Rightarrow> Map.empty (isoformat dt) | Some t \<Rightarrow> Some t)"
      by (rule calendar_dict_key)
    then show ?thesis by (simp split: option.split)
  next
    case False
    have "isoformat dt \<notin> isoformat ` ?days"
    proof
      assume "isoformat dt \<in> isoformat ` ?days"
      then obtain x where "x \<in> ?days" "isoformat dt = isoformat x" by auto
      with range assms(2) have "dt = x" by (blast intro: isoformat_inj)
      with \<open>x \<in> ?days\<close> False show False by simp
    qed
    then have "calendar_dict (calories_per_day owner d) Map.empty (isoformat dt) = None"
      unfolding keys [symmetric] by (simp add: calendar_dict_other)
    with no_rows_no_values [OF False] show ?thesis by simp
  qed
qed

lemma calendar_keys:
  "dom (calendar_dict (calories_per_day owner d) Map.empty) \<subseteq>
     isoformat ` log_date ` {l \<in> set (food_logs d). log_user_id l = owner}"
proof -
  have "fst ` set (calories_per_day owner d) =
      (\<lambda>r. log_date (fst r)) ` set (joined_logs owner d)"
    using calories_per_day_keys [of owner d] by (metis list.set_map set_remdups)
  also have "\<dots> \<subseteq> log_date ` {l \<in> set (food_logs d). log_user_id l = owner}"
    using joined_logs_dates [of _ owner d] by auto
  finally have b: "isoformat ` fst ` set (calories_per_day owner d) \<subseteq>
      isoformat ` log_date ` {l \<in> set (food_logs d). log_user_id l = owner}"
    by (rule image_mono)
  have a: "dom (calendar_dict (calories_per_day owner d) Map.empty) \<subseteq>
      isoformat ` fst ` set (calories_per_day owner d)"
    using calendar_dict_dom [of "calories_per_day owner d" Map.empty] by simp
  from a b show ?thesis by (rule subset_trans)
qed

subsection \<open>The sample database\<close>

lemma isoformat_15: "isoformat (Date 2024 1 15) = ''2024-01-15''"
  by (simp add: isoformat_def digit_def)

lemma isoformat_16: "isoformat (Date 2024 1 16) = ''2024-01-16''"
  by (simp add: isoformat_def digit_def)

lemma joined_ann:
  "joined_logs 1 sample_db = [(sample_logs ! 0, milk), (sample_logs ! 1, milk)]"
  by (simp add: joined_logs_def sample_db_def sample_logs_def milk_def apple_def bread_def)

lemma calories_per_day_ann: "calories_per_day 1 sample_db = [(Date 2024 1 15, Some 25)]"
  by (simp add: calories_per_day_def joined_ann Let_def line_calories_def)
     (simp add: sample_logs_def milk_def)

lemma calendar_ann:
  "get_calendar_data False ''ann'' sample_db = (Inr [''2024-01-15'' \<mapsto> 25], sample_db)"
proof -
  have "calendar_dict (calories_per_day (uid ann) sample_db) Map.empty =
      [isoformat (Date 2024 1 15) \<mapsto> 25]"
    by (simp add: ann_def calories_per_day_ann)
  then show ?thesis
    by (simp only: get_calendar_data_def find_user_ann isoformat_15 option.case if_False)
qed

lemma sample_dates: "\<forall>l\<in>set (food_logs sample_db). date_in_range (log_date l)"
  by (simp add: sample_db_def sample_logs_def date_in_range_def)

subsection \<open>The aggregate\<close>

text \<open>
  Claim C5, as the code has it. For a known user the answer maps the ISO string of a day
  to the sum of quantity times calories over the logs of the user on that day whose food
  item exists with calories that are not \<^verbatim>\<open>NULL\<close>; a day without such a log has no
  key, and every key is the ISO string of a day on which the user has a log. Logs of 2
  and 3 servings of a 5-calorie item on one day give 25 for that day.
\<close>

theorem calendar_aggregate:
  assumes "find_user n d = Some u"
    and "\<forall>l\<in>set (food_logs d). date_in_range (log_date l)"
  shows "\<exists>m. get_calendar_data False n d = (Inr m, d)
     \<and> (\<forall>dt. date_in_range dt \<longrightarrow> m (isoformat dt) = spec_calendar (uid u) d dt)
     \<and> dom m \<subseteq> isoformat ` log_date ` {l \<in> set (food_logs d). log_user_id l = uid u}"
proof -
  let ?m = "calendar_dict (calories_per_day (uid u) d) Map.empty"
  have "get_calendar_data False n d = (Inr ?m, d)"
    using assms(1) by (simp add: get_calendar_data_def)
  moreover have "\<forall>dt. date_in_range dt \<longrightarrow> ?m (isoformat dt) = spec_calendar (uid u) d dt"
    using assms(2) by (simp add: calendar_lookup)
  moreover note calendar_keys [of "uid u" d]
  ultimately show ?thesis by blast
qed

theorem calendar_aggregate_witness:
  "find_user ''ann'' sample_db = Some ann
   \<and> list_all date_in_range (map log_date (food_logs sample_db))
   \<and> get_calendar_data False ''ann'' sample_db = (Inr [''2024-01-15'' \<mapsto> 25], sample_db)
   \<and> spec_calendar (uid ann) sample_db (Date 2024 1 15) = Some 25
   \<and> spec_calendar (uid ann) sample_db (Date 2024 1 16) = None"
proof -
  from calendar_aggregate [OF find_user_ann sample_dates] calendar_ann
  have m: "\<forall>dt. date_in_range dt \<longrightarrow>
      [''2024-01-15'' \<mapsto> (25::real)] (isoformat dt) = spec_calendar (uid ann) sample_db dt"
    by auto
  have "date_in_range (Date 2024 1 15)" "date_in_range (Date 2024 1 16)"
    by (simp_all add: date_in_range_def)
  with m have "[''2024-01-15'' \<mapsto> (25::real)] (isoformat (Date 2024 1 15)) =
        spec_calendar (uid ann) sample_db (Date 2024 1 15)"
      "[''2024-01-15'' \<mapsto> (25::real)] (isoformat (Date 2024 1 16)) =
        spec_calendar (uid ann) sample_db (Date 2024 1 16)"
    by blast+
  then have "spec_calendar (uid ann) sample_db (Date 2024 1 15) = Some 25"
      "spec_calendar (uid ann) sample_db (Date 2024 1 16) = None"
    by (simp_all only: isoformat_15 isoformat_16) simp_all
  moreover have "list_all date_in_range (map log_date (food_logs sample_db))"
    using sample_dates by (simp add: list_all_iff)
  ultimately show ?thesis using find_user_ann calendar_ann by blast
qed

text \<open>
  Claim C5 as written fails on the sample database: Ann has a log on 16 January 2024,
  and the answer has no key for that day.
\<close>

theorem calendar_misses_logged_day:
  "sample_logs ! 2 \<in> set (food_logs sample_db)
   \<and> log_user_id (sample_logs ! 2) = uid ann
   \<and> log_date (sample_logs ! 2) = Date 2024 1 16
   \<and> get_calendar_data False ''ann'' sample_db = (Inr [''2024-01-15'' \<mapsto> 25], sample_db)
   \<and> [''2024-01-15'' \<mapsto> (25::real)] (isoformat (Date 2024 1 16)) = None"
proof -
  have "sample_logs ! 2 \<in> set (food_logs sample_db)"
      "log_user_id (sample_logs ! 2) = uid ann"
      "log_date (sample_logs ! 2) = Date 2024 1 16"
    by (simp_all add: sample_db_def sample_logs_def ann_def)
  moreover have "[''2024-01-15'' \<mapsto> (25::real)] (isoformat (Date 2024 1 16)) = None"
    by (simp only: isoformat_16) simp
  ultimately show ?thesis using calendar_ann by blast
qed

subsection \<open>Logs without a food item\<close>

lemma joined_no_item:
  assumes "food_item_id l \<notin> item_id ` set items"
  shows "[(l, i). i \<leftarrow> items, food_item_id l = item_id i, log_user_id l = owner] = []"
proof -
  from assms have "\<forall>i\<in>set items. food_item_id l \<noteq> item_id i"
    by (metis image_eqI)
  then show ?thesis
    by (induction items) simp_all
qed

lemma concat_map_filter_nil:
  "(\<And>x. \<not> P x \<Longrightarrow> f x = []) \<Longrightarrow> concat (map f (filter P xs)) = concat (map f xs)"
  by (induction xs) simp_all

lemma joined_drop_dangling:
  "[(l, i). l \<leftarrow> filter (\<lambda>l. food_item_id l \<in> item_id ` set items) ls, i \<leftarrow> items,
      food_item_id l = item_id i, log_user_id l = owner] =
   [(l, i). l \<leftarrow> ls, i \<leftarrow> items, food_item_id l = item_id i, log_user_id l = owner]"
  by (rule concat_map_filter_nil) (rule joined_no_item)

lemma joined_logs_drop_dangling:
  "joined_logs owner
     (d\<lparr>food_logs := filter (\<lambda>l. food_item_id l \<in> item_id ` set (food_items d)) (food_logs d)\<rparr>) =
   joined_logs owner d"
proof -
  let ?kept = "filter (\<lambda>l. food_item_id l \<in> item_id ` set (food_items d)) (food_logs d)"
  have sel: "food_logs (d\<lparr>food_logs := ?kept\<rparr>) = ?kept"
      "food_items (d\<lparr>food_logs := ?kept\<rparr>) = food_items d"
    by simp_all
  show ?thesis
    by (simp only: joined_logs_def sel joined_drop_dangling)
qed

lemma joined_logs_item:
  "r \<in> set (joined_logs owner d) \<Longrightarrow> food_item_id (fst r) \<in> item_id ` set (food_items d)"
  by (auto simp: joined_logs_def split: if_splits)

lemma day_without_items:
  assumes "\<forall>l\<in>set (food_logs d). log_user_id l = owner \<and> log_date l = dt \<longrightarrow>
             food_item_id l \<notin> item_id ` set (food_items d)"
  shows "spec_calendar owner d dt = None"
proof -
  have "dt \<notin> (\<lambda>r. log_date (fst r)) ` set (joined_logs owner d)"
  proof
    assume "dt \<in> (\<lambda>r. log_date (fst r)) ` set (joined_logs owner d)"
    then obtain r where r: "r \<in> set (joined_logs owner d)" "log_date (fst r) = dt"
      by blast
    from r(1) have "fst r \<in> set (food_logs d)" "log_user_id (fst r) = owner"
      by (simp_all add: joined_logs_dates)
    with assms r(2) have "food_item_id (fst r) \<notin> item_id ` set (food_items d)"
      by blast
    with joined_logs_item [OF r(1)] show False by contradiction
  qed
  then show ?thesis by (rule no_rows_no_values)
qed

text \<open>
  Claim C10. The answer does not change when the logs whose food item identifier no
  food item has are taken out of the table; and a day on which every log of the user is
  such a log has no key in the answer.
\<close>

theorem dangling_logs_excluded:
  "fst (get_calendar_data q n
     (d\<lparr>food_logs := filter (\<lambda>l. food_item_id l \<in> item_id ` set (food_items d)) (food_logs d)\<rparr>)) =
   fst (get_calendar_data q n d)
   \<and> (\<forall>u dt. find_user n d = Some u
         \<and> (\<forall>l\<in>set (food_logs d). date_in_range (log_date l)) \<and> date_in_range dt
         \<and> (\<forall>l\<in>set (food_logs d). log_user_id l = uid u \<and> log_date l = dt \<longrightarrow>
               food_item_id l \<notin> item_id ` set (food_items d)) \<longrightarrow>
       (\<exists>m. get_calendar_data False n d = (Inr m, d) \<and> m (isoformat dt) = None))"
proof (intro conjI allI impI)
  let ?d = "d\<lparr>food_logs :=
    filter (\<lambda>l. food_item_id l \<in> item_id ` set (food_items d)) (food_logs d)\<rparr>"
  have u: "find_user n ?d = find_user n d"
    by (simp add: find_user_def)
  have c: "calories_per_day owner ?d = calories_per_day owner d" for owner
    by (simp only: calories_per_day_def joined_logs_drop_dangling)
  show "fst (get_calendar_data q n ?d) = fst (get_calendar_data q n d)"
  proof (cases "find_user n d")
    case None
    with u show ?thesis by (simp add: get_calendar_data_def)
  next
    case (Some a)
    with u c [of "uid a"] show ?thesis by (simp add: get_calendar_data_def)
  qed
next
  fix u dt
  assume a: "find_user n d = Some u
         \<and> (\<forall>l\<in>set (food_logs d). date_in_range (log_date l)) \<and> date_in_range dt
         \<and> (\<forall>l\<in>set (food_logs d). log_user_id l = uid u \<and> log_date l = dt \<longrightarrow>
               food_item_id l \<notin> item_id ` set (food_items d))"
  let ?m = "calendar_dict (calories_per_day (uid u) d) Map.empty"
  from a have "get_calendar_data False n d = (Inr ?m, d)"
    by (simp add: get_calendar_data_def)
  moreover from a have "?m (isoformat dt) = spec_calendar (uid u) d dt"
    by (simp add: calendar_lookup)
  moreover have "spec_calendar (uid u) d dt = None"
    by (rule day_without_items) (use a in blast)
  ultimately show "\<exists>m. get_calendar_data False n d = (Inr m, d) \<and> m (isoformat dt) = None"
    by simp
qed

theorem dangling_logs_excluded_witness:
  "find_user ''ann'' sample_db = Some ann
   \<and> food_item_id (sample_logs ! 2) \<notin> item_id ` set (food_items sample_db)
   \<and> filter (\<lambda>l. log_user_id l = uid ann \<and> log_date l = Date 2024 1 16) (food_logs sample_db) =
        [sample_logs ! 2]
   \<and> get_calendar_data False ''ann'' sample_db = (Inr [''2024-01-15'' \<mapsto> 25], sample_db)
   \<and> [''2024-01-15'' \<mapsto> (25::real)] ''2024-01-16'' = None
   \<and> fst (get_calendar_data False ''ann''
         (sample_db\<lparr>food_logs := [sample_logs ! 0, sample_logs ! 1, sample_logs ! 3]\<rparr>)) =
       Inr [''2024-01-15'' \<mapsto> 25]"
proof -
  have kept: "filter (\<lambda>l. food_item_id l \<in> item_id ` set (food_items sample_db))
      (food_logs sample_db) = [sample_logs ! 0, sample_logs ! 1, sample_logs ! 3]"
    by (simp add: sample_db_def sample_logs_def milk_def apple_def bread_def)
  have day: "filter (\<lambda>l. log_user_id l = uid ann \<and> log_date l = Date 2024 1 16)
      (food_logs sample_db) = [sample_logs ! 2]"
    by (simp add: sample_db_def sample_logs_def ann_def)
  have dangling: "food_item_id (sample_logs ! 2) \<notin> item_id ` set (food_items sample_db)"
    by (simp add: sample_db_def sample_logs_def milk_def apple_def bread_def)
  have only: "\<forall>l\<in>set (food_logs sample_db).
      log_user_id l = uid ann \<and> log_date l = Date 2024 1 16 \<longrightarrow>
        food_item_id l \<notin> item_id ` set (food_items sample_db)"
  proof (intro ballI impI)
    fix l
    assume "l \<in> set (food_logs sample_db)"
      and "log_user_id l = uid ann \<and> log_date l = Date 2024 1 16"
    then have "l \<in> set (filter (\<lambda>l. log_user_id l = uid ann \<and> log_date l = Date 2024 1 16)
        (food_logs sample_db))"
      by simp
    then have "l = sample_logs ! 2" by (simp only: day) simp
    with dangling show "food_item_id l \<notin> item_id ` set (food_items sample_db)" by simp
  qed
  have range: "date_in_range (Date 2024 1 16)"
    by (simp add: date_in_range_def)
  note excl = dangling_logs_excluded [of False "''ann''" sample_db]
  from excl have "fst (get_calendar_data False ''ann''
      (sample_db\<lparr>food_logs := [sample_logs ! 0, sample_logs ! 1, sample_logs ! 3]\<rparr>)) =
      fst (get_calendar_data False ''ann'' sample_db)"
    by (simp only: kept)
  then have one: "fst (get_calendar_data False ''ann''
      (sample_db\<lparr>food_logs := [sample_logs ! 0, sample_logs ! 1, sample_logs ! 3]\<rparr>)) =
      Inr [''2024-01-15'' \<mapsto> 25]"
    by (simp add: calendar_ann)
  from excl find_user_ann sample_dates range only
  have "\<exists>m. get_calendar_data False ''ann'' sample_db = (Inr m, sample_db)
      \<and> m (isoformat (Date 2024 1 16)) = None"
    by blast
  then have two: "[''2024-01-15'' \<mapsto> (25::real)] ''2024-01-16'' = None"
    by (simp add: calendar_ann isoformat_16)
  from one two day dangling find_user_ann calendar_ann show ?thesis by blast
qed

section \<open>Repeated analysis\<close>

lemma extract_milk: "extract_fields milk_parsed = Inr (Numeric 500, ''ml'', ''milk'')"
  by (simp add: extract_fields_def milk_parsed_def lower_def lower_char_def)

lemma normalize_milk: "normalize 500 ''ml'' = (5, ''100ml'')"
  by (simp add: normalize_def)

lemma new_milk: "new_food_item
    \<lparr>nd_name = Some ''Milk'', nd_calories = Some (Num 42),
     nd_protein = Some (Num 3), nd_carbs = Some (Num 5), nd_fat = Some (Num 1),
     nd_fiber = Some (Num 0)\<rparr> ''milk'' ''100ml'' 2 i = bob_milk i"
  by (simp add: new_food_item_def bob_milk_def)

lemma first_analysis:
  "analyze_and_find_food milk_parsed milk_nutrition milk_request sample_db =
     (Inr \<lparr>ar_item = bob_milk 4, ar_quantity = 5, ar_new = True\<rparr>,
      sample_db\<lparr>food_items := [milk, apple, bread, bob_milk 4], item_seq := 5\<rparr>)"
proof -
  have u: "find_user (far_username milk_request) sample_db = Some bob"
    by (simp add: milk_request_def find_user_bob)
  have f: "find_item 2 ''milk'' sample_db = None"
    by (simp add: find_item_def sample_db_def milk_def apple_def bread_def)
  have s: "food_items sample_db = [milk, apple, bread]" "item_seq sample_db = 4" "uid bob = 2"
    by (simp_all add: sample_db_def bob_def)
  show ?thesis
    by (simp add: analyze_and_find_food_def u extract_milk normalize_milk f
        milk_nutrition_def new_milk s Let_def)
qed

lemma second_analysis:
  "analyze_and_find_food milk_parsed milk_nutrition milk_request
     (sample_db\<lparr>food_items := [milk, apple, bread, bob_milk 4], item_seq := 5\<rparr>) =
     (Inr \<lparr>ar_item = bob_milk 5, ar_quantity = 5, ar_new = True\<rparr>,
      sample_db\<lparr>food_items := [milk, apple, bread, bob_milk 4, bob_milk 5], item_seq := 6\<rparr>)"
proof -
  let ?d = "sample_db\<lparr>food_items := [milk, apple, bread, bob_milk 4], item_seq := 5\<rparr>"
  have u: "find_user (far_username milk_request) ?d = Some bob"
    using find_user_bob by (simp add: milk_request_def find_user_def)
  have f: "find_item 2 ''milk'' ?d = None"
    by (simp add: find_item_def milk_def apple_def bread_def bob_milk_def)
  have s: "uid bob = 2"
    by (simp add: bob_def)
  show ?thesis
    by (simp add: analyze_and_find_food_def u extract_milk normalize_milk f
        milk_nutrition_def new_milk s Let_def)
qed

text \<open>
  Claim C2 says that, after a first analysis has created an item for a lower-cased item
  name, a second analysis with the same lower-cased item name of the same user answers
  with that item and \<^verbatim>\<open>new = false\<close>. The handler looks the item up under the
  lower-cased name of the extraction reply but stores it under the name of the nutrition
  reply. Here Bob's first analysis of milk creates item 4 under the name \<^verbatim>\<open>Milk\<close>; his
  second analysis, with the same extraction reply, finds no item named \<^verbatim>\<open>milk\<close>,
  creates item 5 and answers \<^verbatim>\<open>new = true\<close>.
\<close>

theorem analyze_twice_creates_twice:
  "fst (analyze_and_find_food milk_parsed milk_nutrition milk_request sample_db) =
     Inr \<lparr>ar_item = bob_milk 4, ar_quantity = 5, ar_new = True\<rparr>
   \<and> fst (analyze_and_find_food milk_parsed milk_nutrition milk_request
         (snd (analyze_and_find_food milk_parsed milk_nutrition milk_request sample_db))) =
     Inr \<lparr>ar_item = bob_milk 5, ar_quantity = 5, ar_new = True\<rparr>
   \<and> item_id (bob_milk 5) \<noteq> item_id (bob_milk 4)"
proof -
  have "item_id (bob_milk 5) \<noteq> item_id (bob_milk 4)"
    by (simp add: bob_milk_def)
  then show ?thesis
    by (simp add: first_analysis second_analysis)
qed

text \<open>
  When the first analysis stored the item under the lower-cased name itself (the
  nutrition reply repeats it, or has no \<^verbatim>\<open>"name"\<close>), the second analysis answers with
  that item, creates nothing and needs no nutrition reply.
\<close>

lemma find_append_last: "find P xs = None \<Longrightarrow> P x \<Longrightarrow> find P (xs @ [x]) = Some x"
  by (induction xs) (simp_all split: if_splits)

lemma analyze_again_reuses_item:
  assumes first: "analyze_and_find_food p1 n1 request d = (Inr r1, d1)" and new: "ar_new r1"
    and e1: "extract_fields p1 = Inr (q1, u1, nm)"
    and e2: "extract_fields p2 = Inr (Numeric q2, u2, nm)"
    and same: "item_name (ar_item r1) = nm"
  shows "analyze_and_find_food p2 n2 request d1 =
    (Inr \<lparr>ar_item = ar_item r1, ar_quantity = fst (normalize q2 u2), ar_new = False\<rparr>, d1)"
proof -
  obtain u where u: "find_user (far_username request) d = Some u"
    using first by (cases "find_user (far_username request) d")
      (simp_all add: analyze_and_find_food_def)
  obtain q where q: "py_float q1 = Inr q"
    using first u e1 by (cases "py_float q1") (simp_all add: analyze_and_find_food_def)
  obtain nq sv where n: "normalize q u1 = (nq, sv)"
    by (cases "normalize q u1")
  have none: "find_item (uid u) nm d = None"
    using first new u e1 q n by (cases "find_item (uid u) nm d")
      (auto simp: analyze_and_find_food_def)
  obtain nd where nd: "n1 = Decoded nd"
    using first u e1 q n none by (cases n1) (simp_all add: analyze_and_find_food_def)
  define it where "it = new_food_item nd nm sv (uid u) (item_seq d)"
  have r1: "ar_item r1 = it"
    and d1: "d1 = d\<lparr>food_items := food_items d @ [it], item_seq := item_seq d + 1\<rparr>"
    using first u e1 q n none nd by (auto simp: analyze_and_find_food_def Let_def it_def)
  have u1: "find_user (far_username request) d1 = Some u"
    using u by (simp add: d1 find_user_def)
  have owner: "item_user_id it = uid u"
    by (simp add: it_def new_food_item_def)
  from none have "find (\<lambda>i. item_user_id i = uid u \<and> item_name i = nm) (food_items d) = None"
    by (simp add: find_item_def)
  moreover from owner same r1 have "item_user_id it = uid u \<and> item_name it = nm"
    by simp
  ultimately have "find (\<lambda>i. item_user_id i = uid u \<and> item_name i = nm)
      (food_items d @ [it]) = Some it"
    by (rule find_append_last)
  then have "find_item (uid u) nm d1 = Some it"
    by (simp add: find_item_def d1)
  then show ?thesis
    using u1 e2 r1 by (simp add: analyze_and_find_food_def split: prod.split)
qed

section \<open>A food item with NULL calories\<close>



end
